theory Spec2Isabelle
  imports Complex_Main
begin

section \<open>Perforated sheet with a staggered grid of hexagonal holes\<close>

text \<open>
  The script \<^verbatim>\<open>box_1000x500x20_20250514_457e4a.py\<close> computes a grid layout from
  seven parameters, enumerates the grid positions, keeps those whose circumcircle
  passes a boundary check, builds one hexagon solid per kept position and cuts
  them out of a box.

  Python's \<open>float\<close> is the IEEE 754 binary64 format: every arithmetic operation
  returns the exact result rounded to the nearest double, ties to even, and
  overflows to an infinity. Python's \<open>int\<close> is \<open>int\<close>. The geometry kernel
  (\<open>Part\<close>) is a term algebra: each kernel call is a constructor, so the result
  shape records which calls were made. \<open>math.radians\<close>, \<open>math.cos\<close> and
  \<open>math.sin\<close> belong to the C library and are parameters of the model.
\<close>

subsection \<open>Doubles\<close>

text \<open>
  A double is a finite value (the real number it denotes), an infinity or a NaN.
  The sign of a zero is not represented: the script never divides by a zero
  (Python raises first) and uses no other operation that tells the two zeros
  apart.
\<close>

datatype double = Finite real | PInf | NInf | NaN

definition pow2 :: "int \<Rightarrow> real" where
  "pow2 e = (if 0 \<le> e then 2 ^ nat e else 1 / 2 ^ nat (- e))"

text \<open>The nearest integer, a tie going to the even one.\<close>

definition round_even :: "real \<Rightarrow> int" where
  "round_even y =
     (let f = \<lfloor>y\<rfloor>; r = y - of_int f
      in if r < 1 / 2 then f
         else if 1 / 2 < r then f + 1
         else if even f then f else f + 1)"

text \<open>
  The spacing of the doubles around \<open>x\<close>: 52 fraction bits below the binary
  exponent of \<open>x\<close>, which is at least \<open>-1022\<close> (below that the doubles are
  subnormal and equally spaced).
\<close>

definition quantum :: "real \<Rightarrow> real" where
  "quantum x = pow2 (max (- 1022) \<lfloor>log 2 \<bar>x\<bar>\<rfloor> - 52)"

text \<open>Rounding an exact result to a double; \<open>2 ^ 1024\<close> and beyond is an infinity.\<close>

definition rnd :: "real \<Rightarrow> double" where
  "rnd x =
     (if x = 0 then Finite 0
      else let y = of_int (round_even (x / quantum x)) * quantum x
           in if 2 ^ 1024 \<le> \<bar>y\<bar> then (if 0 < x then PInf else NInf) else Finite y)"

text \<open>Unary minus.\<close>

fun float_neg :: "double \<Rightarrow> double" where
  "float_neg (Finite a) = Finite (- a)"
| "float_neg PInf = NInf"
| "float_neg NInf = PInf"
| "float_neg NaN = NaN"

fun float_add :: "double \<Rightarrow> double \<Rightarrow> double" where
  "float_add (Finite a) (Finite b) = rnd (a + b)"
| "float_add NaN b = NaN"
| "float_add a NaN = NaN"
| "float_add PInf NInf = NaN"
| "float_add NInf PInf = NaN"
| "float_add PInf b = PInf"
| "float_add a PInf = PInf"
| "float_add NInf b = NInf"
| "float_add a NInf = NInf"

fun float_sub :: "double \<Rightarrow> double \<Rightarrow> double" where
  "float_sub (Finite a) (Finite b) = rnd (a - b)"
| "float_sub NaN b = NaN"
| "float_sub a NaN = NaN"
| "float_sub PInf PInf = NaN"
| "float_sub NInf NInf = NaN"
| "float_sub PInf b = PInf"
| "float_sub a PInf = NInf"
| "float_sub NInf b = NInf"
| "float_sub a NInf = PInf"

text \<open>An infinity of the sign of \<open>s\<close>: the product or quotient of an infinity and a
  finite non-zero value; an infinity times zero is a NaN.\<close>

definition signed_inf :: "real \<Rightarrow> double" where
  "signed_inf s = (if s = 0 then NaN else if 0 < s then PInf else NInf)"

fun float_mul :: "double \<Rightarrow> double \<Rightarrow> double" where
  "float_mul (Finite a) (Finite b) = rnd (a * b)"
| "float_mul NaN b = NaN"
| "float_mul a NaN = NaN"
| "float_mul PInf (Finite b) = signed_inf b"
| "float_mul NInf (Finite b) = signed_inf (- b)"
| "float_mul (Finite a) PInf = signed_inf a"
| "float_mul (Finite a) NInf = signed_inf (- a)"
| "float_mul PInf PInf = PInf"
| "float_mul NInf NInf = PInf"
| "float_mul PInf NInf = NInf"
| "float_mul NInf PInf = NInf"

text \<open>IEEE division by a divisor that is not zero.\<close>

fun ieee_div :: "double \<Rightarrow> double \<Rightarrow> double" where
  "ieee_div (Finite a) (Finite b) = rnd (a / b)"
| "ieee_div NaN b = NaN"
| "ieee_div a NaN = NaN"
| "ieee_div PInf (Finite b) = signed_inf b"
| "ieee_div NInf (Finite b) = signed_inf (- b)"
| "ieee_div (Finite a) PInf = Finite 0"
| "ieee_div (Finite a) NInf = Finite 0"
| "ieee_div PInf PInf = NaN"
| "ieee_div NInf NInf = NaN"
| "ieee_div PInf NInf = NaN"
| "ieee_div NInf PInf = NaN"

text \<open>\<open>a < b\<close> and \<open>a <= b\<close>: false when either side is a NaN.\<close>

fun float_lt :: "double \<Rightarrow> double \<Rightarrow> bool" where
  "float_lt (Finite a) (Finite b) = (a < b)"
| "float_lt NaN b = False"
| "float_lt a NaN = False"
| "float_lt PInf b = False"
| "float_lt a NInf = False"
| "float_lt a PInf = True"
| "float_lt NInf b = True"

fun float_le :: "double \<Rightarrow> double \<Rightarrow> bool" where
  "float_le (Finite a) (Finite b) = (a \<le> b)"
| "float_le NaN b = False"
| "float_le a NaN = False"
| "float_le a PInf = True"
| "float_le NInf b = True"
| "float_le PInf b = False"
| "float_le a NInf = False"

text \<open>\<open>a >= b\<close>.\<close>

definition float_ge :: "double \<Rightarrow> double \<Rightarrow> bool" where
  "float_ge a b = float_le b a"

subsection \<open>Python primitives\<close>

datatype py_error = ZeroDivisionError | OverflowError | ValueError

text \<open>\<open>a / b\<close> on floats raises on a zero divisor, before any IEEE rule applies.\<close>

definition float_div :: "double \<Rightarrow> double \<Rightarrow> py_error + double" where
  "float_div a b = (if b = Finite 0 then Inl ZeroDivisionError else Inr (ieee_div a b))"

text \<open>\<open>int(x)\<close> on a float truncates towards zero; it raises on an infinity and
  on a NaN.\<close>

fun py_int :: "double \<Rightarrow> py_error + int" where
  "py_int (Finite x) = Inr (if 0 \<le> x then \<lfloor>x\<rfloor> else \<lceil>x\<rceil>)"
| "py_int PInf = Inl OverflowError"
| "py_int NInf = Inl OverflowError"
| "py_int NaN = Inl ValueError"

text \<open>An \<open>int\<close> operand of a float operation is converted to the nearest double;
  the conversion raises when the integer is too large.\<close>

definition float_of_int :: "int \<Rightarrow> py_error + double" where
  "float_of_int n =
     (case rnd (of_int n) of Finite y \<Rightarrow> Inr (Finite y) | _ \<Rightarrow> Inl OverflowError)"

text \<open>\<open>range(n)\<close>: the integers \<open>0, ..., n - 1\<close>, empty when \<open>n \<le> 0\<close>.\<close>

definition py_range :: "int \<Rightarrow> int list" where
  "py_range n = [0..n - 1]"

subsection \<open>Parameters (lines 19-29)\<close>

record params =
  plate_length :: double
  plate_width :: double
  plate_thickness :: double
  hole_diameter :: double
  pitch_x :: double
  pitch_y :: double
  tol :: double

text \<open>Line 24: \<open>hole_radius = hole_diameter / 2.0\<close>; the divisor is not zero.\<close>

definition hole_radius :: "params \<Rightarrow> double" where
  "hole_radius P = ieee_div (hole_diameter P) (Finite 2)"

text \<open>The constants the script is written with. The first six are doubles as
  written; \<open>1e-6\<close> is read as the double nearest to it.\<close>

definition script_params :: params where
  "script_params =
     \<lparr>plate_length = Finite 100, plate_width = Finite 50, plate_thickness = Finite 2,
      hole_diameter = Finite 5, pitch_x = Finite 10, pitch_y = Finite 10,
      tol = rnd (1 / 1000000)\<rparr>"

subsection \<open>Number of holes and margins (lines 34-52)\<close>

record grid =
  n_cols :: int
  margin_x :: double
  n_rows :: int
  margin_y :: double

text \<open>Lines 34-37.\<close>

definition compute_n_cols :: "params \<Rightarrow> py_error + int" where
  "compute_n_cols P =
     (if float_lt (plate_length P) (hole_diameter P) then Inr 0
      else case float_div (float_sub (plate_length P) (hole_diameter P)) (pitch_x P) of
             Inl e \<Rightarrow> Inl e
           | Inr q \<Rightarrow> (case py_int q of Inl e \<Rightarrow> Inl e | Inr k \<Rightarrow> Inr (k + 1)))"

text \<open>Line 39.\<close>

definition span_x :: "params \<Rightarrow> int \<Rightarrow> py_error + double" where
  "span_x P nc =
     (case float_of_int (nc - 1) of
        Inl e \<Rightarrow> Inl e
      | Inr f \<Rightarrow> Inr (float_add (float_mul f (pitch_x P)) (hole_diameter P)))"

text \<open>Lines 38-42.\<close>

definition compute_margin_x :: "params \<Rightarrow> int \<Rightarrow> py_error + double" where
  "compute_margin_x P nc =
     (if nc > 0
      then case span_x P nc of
             Inl e \<Rightarrow> Inl e
           | Inr s \<Rightarrow> Inr (ieee_div (float_sub (plate_length P) s) (Finite 2))
      else Inr (ieee_div (plate_length P) (Finite 2)))"

text \<open>Lines 44-47.\<close>

definition compute_n_rows :: "params \<Rightarrow> py_error + int" where
  "compute_n_rows P =
     (if float_lt (plate_width P) (hole_diameter P) then Inr 0
      else case float_div (float_sub (plate_width P) (hole_diameter P)) (pitch_y P) of
             Inl e \<Rightarrow> Inl e
           | Inr q \<Rightarrow> (case py_int q of Inl e \<Rightarrow> Inl e | Inr k \<Rightarrow> Inr (k + 1)))"

text \<open>Line 49.\<close>

definition span_y :: "params \<Rightarrow> int \<Rightarrow> py_error + double" where
  "span_y P nr =
     (case float_of_int (nr - 1) of
        Inl e \<Rightarrow> Inl e
      | Inr f \<Rightarrow> Inr (float_add (float_mul f (pitch_y P)) (hole_diameter P)))"

text \<open>Lines 48-52.\<close>

definition compute_margin_y :: "params \<Rightarrow> int \<Rightarrow> py_error + double" where
  "compute_margin_y P nr =
     (if nr > 0
      then case span_y P nr of
             Inl e \<Rightarrow> Inl e
           | Inr s \<Rightarrow> Inr (ieee_div (float_sub (plate_width P) s) (Finite 2))
      else Inr (ieee_div (plate_width P) (Finite 2)))"

text \<open>Lines 34-52 in sequence: the first exception ends the run.\<close>

definition grid_layout :: "params \<Rightarrow> py_error + grid" where
  "grid_layout P =
     (case compute_n_cols P of
        Inl e \<Rightarrow> Inl e
      | Inr nc \<Rightarrow>
     (case compute_margin_x P nc of
        Inl e \<Rightarrow> Inl e
      | Inr mx \<Rightarrow>
     (case compute_n_rows P of
        Inl e \<Rightarrow> Inl e
      | Inr nr \<Rightarrow>
     (case compute_margin_y P nr of
        Inl e \<Rightarrow> Inl e
      | Inr my \<Rightarrow> Inr \<lparr>n_cols = nc, margin_x = mx, n_rows = nr, margin_y = my\<rparr>))))"

subsection \<open>The hole enumerator (lines 86-97)\<close>

text \<open>Line 88.\<close>

definition cy :: "params \<Rightarrow> grid \<Rightarrow> int \<Rightarrow> py_error + double" where
  "cy P g row =
     (case float_of_int row of
        Inl e \<Rightarrow> Inl e
      | Inr f \<Rightarrow>
          Inr (float_add (float_add (margin_y g) (hole_radius P)) (float_mul f (pitch_y P))))"

text \<open>Line 90: odd rows are staggered by half the X pitch.\<close>

definition x_offset :: "params \<Rightarrow> int \<Rightarrow> double" where
  "x_offset P row = (if row mod 2 = 1 then ieee_div (pitch_x P) (Finite 2) else Finite 0)"

text \<open>Line 92.\<close>

definition cx :: "params \<Rightarrow> grid \<Rightarrow> int \<Rightarrow> int \<Rightarrow> py_error + double" where
  "cx P g row col =
     (case float_of_int col of
        Inl e \<Rightarrow> Inl e
      | Inr f \<Rightarrow>
          Inr (float_add
                (float_add (float_add (margin_x g) (hole_radius P)) (float_mul f (pitch_x P)))
                (x_offset P row)))"

text \<open>Lines 94-95, split into the four tests in the order they are evaluated.\<close>

definition x_lower_ok :: "params \<Rightarrow> double \<Rightarrow> bool" where
  "x_lower_ok P x = float_ge (float_sub x (hole_radius P)) (float_neg (tol P))"

definition x_upper_ok :: "params \<Rightarrow> double \<Rightarrow> bool" where
  "x_upper_ok P x = float_le (float_add x (hole_radius P)) (float_add (plate_length P) (tol P))"

definition y_lower_ok :: "params \<Rightarrow> double \<Rightarrow> bool" where
  "y_lower_ok P y = float_ge (float_sub y (hole_radius P)) (float_neg (tol P))"

definition y_upper_ok :: "params \<Rightarrow> double \<Rightarrow> bool" where
  "y_upper_ok P y = float_le (float_add y (hole_radius P)) (float_add (plate_width P) (tol P))"

definition boundary_check :: "params \<Rightarrow> double \<Rightarrow> double \<Rightarrow> bool" where
  "boundary_check P x y =
     (x_lower_ok P x \<and> x_upper_ok P x \<and> y_lower_ok P y \<and> y_upper_ok P y)"

text \<open>
  The inner loop (lines 91-97) over the remaining column indices, for the \<open>cy\<close>
  of the current row. The accumulator is the list the script appends to; it
  holds the centre of each hole appended so far (the solid built from a centre
  is \<open>make_hexagon_hole\<close> below).
\<close>

fun col_loop ::
  "params \<Rightarrow> grid \<Rightarrow> int \<Rightarrow> double \<Rightarrow> int list \<Rightarrow> (double \<times> double) list
     \<Rightarrow> py_error + (double \<times> double) list" where
  "col_loop P g row y [] acc = Inr acc"
| "col_loop P g row y (col # cols) acc =
     (case cx P g row col of
        Inl e \<Rightarrow> Inl e
      | Inr x \<Rightarrow>
          if boundary_check P x y
          then col_loop P g row y cols (acc @ [(x, y)])
          else col_loop P g row y cols acc)"

text \<open>The outer loop (lines 87-97) over the remaining row indices.\<close>

fun row_loop ::
  "params \<Rightarrow> grid \<Rightarrow> int list \<Rightarrow> (double \<times> double) list
     \<Rightarrow> py_error + (double \<times> double) list" where
  "row_loop P g [] acc = Inr acc"
| "row_loop P g (row # rows) acc =
     (case cy P g row of
        Inl e \<Rightarrow> Inl e
      | Inr y \<Rightarrow>
          (case col_loop P g row y (py_range (n_cols g)) acc of
             Inl e \<Rightarrow> Inl e
           | Inr acc' \<Rightarrow> row_loop P g rows acc'))"

text \<open>Lines 86-97: the centres of the accepted holes, in the order appended.\<close>

definition hole_centers :: "params \<Rightarrow> grid \<Rightarrow> py_error + (double \<times> double) list" where
  "hole_centers P g = row_loop P g (py_range (n_rows g)) []"

text \<open>
  The grid positions the two loops visit, as (row, column) index pairs in
  visiting order; the centre computed at a position (a NaN stands for a
  conversion that raised) and the test the position must pass.
\<close>

definition grid_positions :: "grid \<Rightarrow> (int \<times> int) list" where
  "grid_positions g =
     concat (map (\<lambda>row. map (\<lambda>col. (row, col)) (py_range (n_cols g))) (py_range (n_rows g)))"

definition value_of :: "py_error + double \<Rightarrow> double" where
  "value_of r = (case r of Inl e \<Rightarrow> NaN | Inr x \<Rightarrow> x)"

definition center :: "params \<Rightarrow> grid \<Rightarrow> int \<times> int \<Rightarrow> double \<times> double" where
  "center P g rc = (value_of (cx P g (fst rc) (snd rc)), value_of (cy P g (fst rc)))"

definition accepted :: "params \<Rightarrow> grid \<Rightarrow> int \<times> int \<Rightarrow> bool" where
  "accepted P g rc = boundary_check P (fst (center P g rc)) (snd (center P g rc))"

text \<open>Row-major order on index pairs: by row, then by column.\<close>

definition row_major_less :: "int \<times> int \<Rightarrow> int \<times> int \<Rightarrow> bool" where
  "row_major_less a b = (fst a < fst b \<or> (fst a = fst b \<and> snd a < snd b))"

subsection \<open>Geometry kernel calls (lines 57-81 and 102-106)\<close>

datatype vector = Vector double double double

datatype shape =
    MakeBox double double double vector
  | MakePolygon "vector list"
  | Face shape
  | Extrude shape vector
  | MakeCompound "shape list"
  | Cut shape shape

text \<open>The three functions of the \<open>math\<close> module the script calls.\<close>

record libm =
  radians :: "int \<Rightarrow> double"
  cos_of :: "double \<Rightarrow> double"
  sin_of :: "double \<Rightarrow> double"

text \<open>Lines 57-62.\<close>

definition base_plate :: "params \<Rightarrow> shape" where
  "base_plate P =
     MakeBox (plate_length P) (plate_width P) (plate_thickness P)
       (Vector (Finite 0) (Finite 0) (Finite 0))"

text \<open>Lines 67-81; \<open>range(0, 360 + 1, 60)\<close> is the seven angles listed.\<close>

definition make_hexagon_hole :: "libm \<Rightarrow> double \<Rightarrow> double \<Rightarrow> double \<Rightarrow> double \<Rightarrow> shape" where
  "make_hexagon_hole M x y radius thickness =
     (let pts = map (\<lambda>angle_deg.
                  let rad = radians M angle_deg
                  in Vector (float_add x (float_mul radius (cos_of M rad)))
                            (float_add y (float_mul radius (sin_of M rad)))
                            (Finite 0))
                [0, 60, 120, 180, 240, 300, 360];
          wire = MakePolygon pts;
          face = Face wire
      in Extrude face (Vector (Finite 0) (Finite 0) thickness))"

text \<open>Lines 102-106: an empty list is false in Python.\<close>

definition boolean_cut :: "shape \<Rightarrow> shape list \<Rightarrow> shape" where
  "boolean_cut base tools =
     (if tools \<noteq> [] then Cut base (MakeCompound tools) else base)"



subsection \<open>The script up to the result shape (lines 19-106)\<close>

text \<open>
  What the run has computed when line 106 is reached. \<open>centers\<close> is not a variable
  of the script: it records the \<open>(cx, cy)\<close> of each solid in \<open>hole_tools\<close>.
\<close>

record outcome =
  layout :: grid
  centers :: "(double \<times> double) list"
  hole_tools :: "shape list"
  result_shape :: shape

definition script :: "libm \<Rightarrow> params \<Rightarrow> py_error + outcome" where
  "script M P =
     (case grid_layout P of
        Inl e \<Rightarrow> Inl e
      | Inr g \<Rightarrow>
     (case hole_centers P g of
        Inl e \<Rightarrow> Inl e
      | Inr cs \<Rightarrow>
          (let tools = map (\<lambda>c. make_hexagon_hole M (fst c) (snd c)
                                  (hole_radius P) (plate_thickness P)) cs
           in Inr \<lparr>layout = g, centers = cs, hole_tools = tools,
                   result_shape = boolean_cut (base_plate P) tools\<rparr>)))"

subsection \<open>Concrete inputs\<close>

text \<open>The layout of the script's own constants (see \<open>grid_layout_script_params\<close>).\<close>

definition script_grid :: grid where
  "script_grid =
     \<lparr>n_cols = 10, margin_x = Finite (5 / 2), n_rows = 5, margin_y = Finite (5 / 2)\<rparr>"

text \<open>A plate narrower than the hole along X.\<close>

definition narrow_params :: params where
  "narrow_params =
     \<lparr>plate_length = Finite 1, plate_width = Finite 4, plate_thickness = Finite 1,
      hole_diameter = Finite 2, pitch_x = Finite 1, pitch_y = Finite 1,
      tol = rnd (1 / 1000000)\<rparr>"

definition narrow_grid :: grid where
  "narrow_grid =
     \<lparr>n_cols = 0, margin_x = Finite (1 / 2), n_rows = 3, margin_y = Finite 0\<rparr>"



text \<open>A C library whose three functions return zero: the statements below do not
  depend on the vertices of a hexagon.\<close>

definition zero_libm :: libm where
  "zero_libm = \<lparr>radians = (\<lambda>a. Finite 0), cos_of = (\<lambda>x. Finite 0), sin_of = (\<lambda>x. Finite 0)\<rparr>"

section \<open>Rounding\<close>

lemma pow2_powr: "pow2 e = 2 powr of_int e"
proof (cases "0 \<le> e")
  case True
  then have "2 powr of_int e = (2::real) powr real (nat e)" by simp
  also have "\<dots> = 2 ^ nat e" by (simp add: powr_realpow)
  finally show ?thesis using True by (simp add: pow2_def)
next
  case False
  then have "2 powr of_int e = (2::real) powr (- real (nat (- e)))" by simp
  also have "\<dots> = 1 / 2 ^ nat (- e)" by (simp add: powr_minus powr_realpow field_simps)
  finally show ?thesis using False by (simp add: pow2_def)
qed

lemma pow2_pos: "0 < pow2 e"
  by (simp add: pow2_powr)

lemma pow2_add: "pow2 (a + b) = pow2 a * pow2 b"
  by (simp add: pow2_powr powr_add)

lemma pow2_mono: "a \<le> b \<Longrightarrow> pow2 a \<le> pow2 b"
  by (simp add: pow2_powr)

lemma pow2_less_cancel: "pow2 a < pow2 b \<Longrightarrow> a < b"
  by (simp add: pow2_powr)

lemma pow2_nat: "pow2 (int n) = 2 ^ n"
  by (simp add: pow2_def)

lemma round_even_of_int: "round_even (of_int n) = n"
  by (simp add: round_even_def)

lemma round_even_ge: "of_int m \<le> y \<Longrightarrow> m \<le> round_even y"
proof -
  assume "of_int m \<le> y"
  then have "m \<le> \<lfloor>y\<rfloor>" by (simp add: le_floor_iff)
  then show ?thesis by (auto simp: round_even_def Let_def)
qed

lemma round_even_le: "y \<le> of_int m \<Longrightarrow> round_even y \<le> m"
proof -
  assume a: "y \<le> of_int m"
  show ?thesis
  proof (cases "y = of_int \<lfloor>y\<rfloor>")
    case True
    then have "round_even y = \<lfloor>y\<rfloor>"
      by (metis round_even_of_int)
    moreover have "\<lfloor>y\<rfloor> \<le> m" using a by (simp add: floor_le_iff)
    ultimately show ?thesis by simp
  next
    case False
    then have "y < of_int m" using a
      by (metis floor_of_int order_less_le)
    then have "\<lfloor>y\<rfloor> < m" by (simp add: floor_less_iff)
    then show ?thesis by (auto simp: round_even_def Let_def)
  qed
qed

text \<open>The spacing in the binade \<open>[2 ^ e, 2 ^ (e + 1))\<close>.\<close>

lemma quantum_at:
  assumes "- 1022 \<le> e" and "pow2 e \<le> \<bar>x\<bar>" and "\<bar>x\<bar> < pow2 (e + 1)"
  shows "quantum x = pow2 (e - 52)"
proof -
  have pos: "0 < \<bar>x\<bar>"
    using assms(2) pow2_pos [of e] by linarith
  have "\<lfloor>log 2 \<bar>x\<bar>\<rfloor> = e"
    using assms(2,3) pos by (simp add: floor_log_eq_powr_iff pow2_powr)
  then show ?thesis
    using assms(1) by (simp add: quantum_def)
qed

lemma quantum_pos: "0 < quantum x"
  by (simp add: quantum_def pow2_pos)

text \<open>Rounding a value of a known normal binade that cannot overflow.\<close>

lemma rnd_at:
  assumes "- 1022 \<le> e" and "e \<le> 1022" and "pow2 e \<le> \<bar>x\<bar>" and "\<bar>x\<bar> < pow2 (e + 1)"
  shows "rnd x = Finite (of_int (round_even (x / pow2 (e - 52))) * pow2 (e - 52))"
proof -
  let ?q = "pow2 (e - 52)"
  let ?n = "round_even (x / ?q)"
  have q: "quantum x = ?q" using assms(1,3,4) by (rule quantum_at)
  have qpos: "0 < ?q" by (rule pow2_pos)
  have x0: "x \<noteq> 0" using assms(3) pow2_pos [of e] by auto
  have e1: "pow2 (e + 1) = 2 ^ 53 * ?q"
  proof -
    have "pow2 (53 + (e - 52)) = pow2 53 * ?q" by (rule pow2_add)
    moreover have "pow2 53 = 2 ^ 53" by (simp add: pow2_def)
    moreover have "53 + (e - 52) = e + 1" by simp
    ultimately show ?thesis by simp
  qed
  from assms(4) have "\<bar>x\<bar> < 2 ^ 53 * ?q" unfolding e1 .
  then have "\<bar>x\<bar> / ?q \<le> 2 ^ 53"
    using qpos by (simp add: field_simps)
  moreover have "\<bar>x / ?q\<bar> = \<bar>x\<bar> / ?q"
    by (simp only: abs_divide abs_of_pos [OF qpos])
  ultimately have b: "\<bar>x / ?q\<bar> \<le> 2 ^ 53" by (simp only:)
  have "x / ?q \<le> of_int (2 ^ 53)" and "of_int (- (2 ^ 53)) \<le> x / ?q"
    using b by (auto simp only: abs_le_iff of_int_numeral of_int_power of_int_minus)
  then have "?n \<le> 2 ^ 53" and "- (2 ^ 53) \<le> ?n"
    by (simp_all only: round_even_le round_even_ge)
  then have "\<bar>?n\<bar> \<le> 2 ^ 53" by simp
  then have "real_of_int \<bar>?n\<bar> \<le> real_of_int (2 ^ 53)" by (simp only: of_int_le_iff)
  then have "\<bar>real_of_int ?n\<bar> \<le> 2 ^ 53" by simp
  then have "\<bar>real_of_int ?n * ?q\<bar> \<le> 2 ^ 53 * ?q"
    using qpos by (simp add: abs_mult)
  also have "\<dots> = pow2 (e + 1)" by (simp add: e1)
  also have "\<dots> \<le> pow2 1023" using assms(2) by (simp add: pow2_mono)
  also have "\<dots> < 2 ^ 1024" by (simp add: pow2_def)
  finally have "\<not> 2 ^ 1024 \<le> \<bar>real_of_int ?n * ?q\<bar>" by simp
  then show ?thesis
    using x0 by (simp add: rnd_def q Let_def)
qed

text \<open>A multiple of \<open>2 ^ - k\<close> with at most 53 significant bits is a double.\<close>

lemma rnd_exact:
  assumes "x = of_int m / 2 ^ k" and "\<bar>m\<bar> < 2 ^ 53" and "k \<le> 1000"
  shows "rnd x = Finite x"
proof (cases "x = 0")
  case True
  then show ?thesis by (simp add: rnd_def)
next
  case False
  define e where "e = \<lfloor>log 2 \<bar>x\<bar>\<rfloor>"
  have xpos: "0 < \<bar>x\<bar>" using False by simp
  have lo: "pow2 e \<le> \<bar>x\<bar>" and hi: "\<bar>x\<bar> < pow2 (e + 1)"
    using floor_log_eq_powr_iff [of "\<bar>x\<bar>" 2 e] xpos
    by (simp_all add: e_def pow2_powr)
  have m0: "m \<noteq> 0" using False assms(1) by auto
  then have "1 \<le> \<bar>m\<bar>" by simp
  then have "(1::real) \<le> \<bar>of_int m\<bar>"
    by (metis of_int_1_le_iff of_int_abs)
  then have "1 / 2 ^ k \<le> \<bar>x\<bar>"
    by (simp add: assms(1) field_simps)
  moreover have pk: "pow2 (- int k) = 1 / 2 ^ k"
    by (simp add: pow2_def)
  ultimately have "pow2 (- int k) < pow2 (e + 1)" using hi by simp
  then have elo: "- int k \<le> e" using pow2_less_cancel by fastforce
  have "\<bar>real_of_int m\<bar> < 2 ^ 53"
    using assms(2) by (metis of_int_abs of_int_less_numeral_power_cancel_iff)
  then have "\<bar>x\<bar> < 2 ^ 53 / 2 ^ k"
    by (simp add: assms(1) field_simps)
  moreover have "pow2 (53 - int k) = 2 ^ 53 / 2 ^ k"
    using pow2_add [of 53 "- int k"] by (simp add: pow2_def)
  ultimately have "pow2 e < pow2 (53 - int k)" using lo by simp
  then have ehi: "e \<le> 52 - int k" using pow2_less_cancel by fastforce
  define j where "j = nat (52 - int k - e)"
  have j: "int j = 52 - int k - e" using ehi by (simp add: j_def)
  have "pow2 (- int k) = pow2 (int j + (e - 52))"
    using j by simp
  also have "\<dots> = 2 ^ j * pow2 (e - 52)"
    by (simp only: pow2_add pow2_nat)
  finally have k2: "1 / 2 ^ k = 2 ^ j * pow2 (e - 52)"
    using pk by simp
  have qpos: "0 < pow2 (e - 52)" by (rule pow2_pos)
  have "x = of_int m * (1 / 2 ^ k)" by (simp add: assms(1))
  also have "\<dots> = of_int (m * 2 ^ j) * pow2 (e - 52)"
    by (simp add: k2)
  finally have xq: "x = of_int (m * 2 ^ j) * pow2 (e - 52)" .
  then have "x / pow2 (e - 52) = of_int (m * 2 ^ j)"
    using qpos by (simp add: field_simps)
  then have r: "round_even (x / pow2 (e - 52)) = m * 2 ^ j"
    by (simp only: round_even_of_int)
  have "- 1022 \<le> e" using elo assms(3) by simp
  moreover have "e \<le> 1022" using ehi by simp
  ultimately have "rnd x = Finite (of_int (round_even (x / pow2 (e - 52))) * pow2 (e - 52))"
    using lo hi by (rule rnd_at)
  then have "rnd x = Finite (of_int (m * 2 ^ j) * pow2 (e - 52))"
    unfolding r .
  then show ?thesis
    unfolding xq [symmetric] .
qed

text \<open>Multiples of a quarter of moderate size are doubles.\<close>

lemma rnd_quarters:
  assumes "4 * x \<in> \<int>" and "\<bar>x\<bar> < 2 ^ 50"
  shows "rnd x = Finite x"
proof -
  from assms(1) obtain m :: int where m: "4 * x = of_int m"
    by (auto elim: Ints_cases)
  then have x: "x = of_int m / 2 ^ 2" by simp
  have "\<bar>real_of_int m\<bar> < real_of_int (2 ^ 53)"
    using assms(2) m [symmetric] by (simp add: abs_mult)
  then have "real_of_int \<bar>m\<bar> < real_of_int (2 ^ 53)" by simp
  then have "\<bar>m\<bar> < 2 ^ 53" by (simp only: of_int_less_iff)
  with x show ?thesis by (rule rnd_exact) simp
qed

text \<open>Rounding keeps the sign.\<close>

lemma rnd_nonneg:
  assumes "0 \<le> x"
  shows "rnd x = PInf \<or> (\<exists>y. rnd x = Finite y \<and> 0 \<le> y)"
proof -
  have "0 \<le> x / quantum x"
    using assms quantum_pos [of x] by simp
  then have "0 \<le> round_even (x / quantum x)"
    using round_even_ge [of 0 "x / quantum x"] by simp
  then have "0 \<le> of_int (round_even (x / quantum x)) * quantum x"
    using quantum_pos [of x] by simp
  then show ?thesis
    using assms by (auto simp: rnd_def Let_def)
qed

section \<open>The hole enumerator\<close>

text \<open>When the two loops return, they have computed a filter of the grid
  positions, mapped to centres.\<close>

lemma col_loop_closed:
  assumes "col_loop P g row y cols acc = Inr r"
  shows "r = acc @ map (\<lambda>col. (value_of (cx P g row col), y))
                 (filter (\<lambda>col. boundary_check P (value_of (cx P g row col)) y) cols)"
  using assms
proof (induction cols arbitrary: acc)
  case Nil
  then show ?case by simp
next
  case (Cons col cols)
  from Cons.prems obtain x where x: "cx P g row col = Inr x"
    by (auto split: sum.splits)
  show ?case
  proof (cases "boundary_check P x y")
    case True
    with Cons.prems x have "col_loop P g row y cols (acc @ [(x, y)]) = Inr r" by simp
    from Cons.IH [OF this] show ?thesis using True x by (simp add: value_of_def)
  next
    case False
    with Cons.prems x have "col_loop P g row y cols acc = Inr r" by simp
    from Cons.IH [OF this] show ?thesis using False x by (simp add: value_of_def)
  qed
qed

lemma row_loop_closed:
  assumes "row_loop P g rows acc = Inr r"
  shows "r = acc @ map (center P g) (filter (accepted P g)
           (concat (map (\<lambda>row. map (\<lambda>col. (row, col)) (py_range (n_cols g))) rows)))"
  using assms
proof (induction rows arbitrary: acc)
  case Nil
  then show ?case by simp
next
  case (Cons row rows)
  from Cons.prems obtain y where y: "cy P g row = Inr y"
    by (auto split: sum.splits)
  with Cons.prems obtain acc' where
    c: "col_loop P g row y (py_range (n_cols g)) acc = Inr acc'"
    and r: "row_loop P g rows acc' = Inr r"
    by (auto split: sum.splits)
  have "acc' = acc @ map (center P g) (filter (accepted P g)
                 (map (\<lambda>col. (row, col)) (py_range (n_cols g))))"
    using col_loop_closed [OF c] y
    by (simp add: center_def accepted_def value_of_def filter_map comp_def)
  with Cons.IH [OF r] show ?case by simp
qed

lemma hole_centers_closed:
  "hole_centers P g = Inr cs \<Longrightarrow>
   cs = map (center P g) (filter (accepted P g) (grid_positions g))"
  using row_loop_closed [of P g "py_range (n_rows g)" "[]" cs]
  by (simp add: hole_centers_def grid_positions_def)

lemma py_range_strict: "sorted_wrt (<) (py_range n)"
  by (simp add: py_range_def)

lemma set_py_range: "set (py_range n) = {0..n - 1}"
  by (simp add: py_range_def)

lemma rows_row_major:
  assumes "sorted_wrt (<) rows" and "sorted_wrt (<) cols"
  shows "sorted_wrt row_major_less (concat (map (\<lambda>row. map (\<lambda>col. (row, col)) cols) rows))"
  using assms
  by (induction rows) (auto simp: sorted_wrt_append sorted_wrt_map row_major_less_def)

lemma grid_positions_row_major: "sorted_wrt row_major_less (grid_positions g)"
  unfolding grid_positions_def by (rule rows_row_major [OF py_range_strict py_range_strict])

lemma set_grid_positions:
  "set (grid_positions g) = {0..n_rows g - 1} \<times> {0..n_cols g - 1}"
  by (auto simp: grid_positions_def set_py_range)

section \<open>The script's own constants\<close>

lemmas layout_defs = grid_layout_def compute_n_cols_def compute_n_rows_def float_div_def
  compute_margin_x_def compute_margin_y_def span_x_def span_y_def float_of_int_def

lemmas check_defs = boundary_check_def x_lower_ok_def x_upper_ok_def y_lower_ok_def
  y_upper_ok_def cx_def cy_def x_offset_def hole_radius_def float_ge_def float_of_int_def

lemma tol_script: "tol script_params = Finite (4722366482869645 / 4722366482869645213696)"
  by (simp add: script_params_def rnd_at [where e = "- 20"] pow2_def round_even_def)

lemma length_plus_tol:
  "float_add (plate_length script_params) (tol script_params) =
     Finite (879609311016893 / 8796093022208)"
  unfolding tol_script
  by (simp add: script_params_def rnd_at [where e = 6] pow2_def round_even_def)

lemma width_plus_tol:
  "float_add (plate_width script_params) (tol script_params) =
     Finite (879609319812986 / 17592186044416)"
  unfolding tol_script
  by (simp add: script_params_def rnd_at [where e = 5] pow2_def round_even_def)

lemmas script_eval = rnd_quarters rnd_at [where e = "- 20"] rnd_at [where e = 6]
  rnd_at [where e = 5] rnd_at [where e = 0] pow2_def round_even_def

lemma grid_layout_script_params: "grid_layout script_params = Inr script_grid"
  by (simp add: layout_defs script_params_def script_grid_def script_eval)

lemma grid_layout_narrow: "grid_layout narrow_params = Inr narrow_grid"
  by (simp add: layout_defs narrow_params_def narrow_grid_def script_eval)

lemma py_range_10: "py_range 10 = [0, 1, 2, 3, 4, 5, 6, 7, 8, 9]"
  by (simp add: py_range_def upto_rec1)

lemma py_range_5: "py_range 5 = [0, 1, 2, 3, 4]"
  by (simp add: py_range_def upto_rec1)

lemma py_range_0: "py_range 0 = []"
  by (simp add: py_range_def)

lemma py_range_3: "py_range 3 = [0, 1, 2]"
  by (simp add: py_range_def upto_rec1)

lemma hole_centers_script_params:
  "hole_centers script_params script_grid = Inr
   [(Finite 5, Finite 5), (Finite 15, Finite 5), (Finite 25, Finite 5), (Finite 35, Finite 5),
    (Finite 45, Finite 5), (Finite 55, Finite 5), (Finite 65, Finite 5), (Finite 75, Finite 5),
    (Finite 85, Finite 5), (Finite 95, Finite 5),
    (Finite 10, Finite 15), (Finite 20, Finite 15), (Finite 30, Finite 15),
    (Finite 40, Finite 15), (Finite 50, Finite 15), (Finite 60, Finite 15),
    (Finite 70, Finite 15), (Finite 80, Finite 15), (Finite 90, Finite 15),
    (Finite 5, Finite 25), (Finite 15, Finite 25), (Finite 25, Finite 25),
    (Finite 35, Finite 25), (Finite 45, Finite 25), (Finite 55, Finite 25),
    (Finite 65, Finite 25), (Finite 75, Finite 25), (Finite 85, Finite 25),
    (Finite 95, Finite 25),
    (Finite 10, Finite 35), (Finite 20, Finite 35), (Finite 30, Finite 35),
    (Finite 40, Finite 35), (Finite 50, Finite 35), (Finite 60, Finite 35),
    (Finite 70, Finite 35), (Finite 80, Finite 35), (Finite 90, Finite 35),
    (Finite 5, Finite 45), (Finite 15, Finite 45), (Finite 25, Finite 45),
    (Finite 35, Finite 45), (Finite 45, Finite 45), (Finite 55, Finite 45),
    (Finite 65, Finite 45), (Finite 75, Finite 45), (Finite 85, Finite 45),
    (Finite 95, Finite 45)]"
  by (simp add: hole_centers_def py_range_10 py_range_5 check_defs script_params_def
      script_grid_def script_eval)

lemma length_grid_positions_script: "length (grid_positions script_grid) = 50"
  by (simp add: grid_positions_def py_range_10 py_range_5 script_grid_def)

lemma rejected_script:
  "filter (\<lambda>rc. \<not> accepted script_params script_grid rc) (grid_positions script_grid) =
     [(1, 9), (3, 9)]"
  by (simp add: grid_positions_def py_range_10 py_range_5 accepted_def center_def value_of_def
      check_defs script_params_def script_grid_def script_eval)

lemma last_column_row_1:
  "cx script_params script_grid 1 9 = Inr (Finite 100)"
  "cy script_params script_grid 1 = Inr (Finite 15)"
  "hole_radius script_params = Finite (5 / 2)"
  by (simp_all add: check_defs script_params_def script_grid_def script_eval)

text \<open>
  Claim C3, as the script computes it. With the script's constants the layout is
  \<open>n_cols = 10\<close>, \<open>n_rows = 5\<close>, \<open>margin_x = margin_y = 2.5\<close>; 50 grid positions
  are visited and 48 are accepted. The two rejected positions are the last
  column of rows 1 and 3: there \<open>cx = 2.5 + 2.5 + 90 + 5 = 100\<close>, so
  \<open>cx + hole_radius = 102.5\<close> exceeds \<open>plate_length + tol\<close>.
\<close>

theorem script_example:
  "grid_layout script_params =
     Inr \<lparr>n_cols = 10, margin_x = Finite (5 / 2), n_rows = 5, margin_y = Finite (5 / 2)\<rparr>
   \<and> length (grid_positions script_grid) = 50
   \<and> map_sum id length (hole_centers script_params script_grid) = Inr 48
   \<and> filter (\<lambda>rc. \<not> accepted script_params script_grid rc) (grid_positions script_grid) =
       [(1, 9), (3, 9)]
   \<and> cx script_params script_grid 1 9 = Inr (Finite 100)
   \<and> float_add (Finite 100) (hole_radius script_params) = Finite (205 / 2)"
proof -
  have "grid_layout script_params =
      Inr \<lparr>n_cols = 10, margin_x = Finite (5 / 2), n_rows = 5, margin_y = Finite (5 / 2)\<rparr>"
    using grid_layout_script_params by (simp add: script_grid_def)
  moreover have "map_sum id length (hole_centers script_params script_grid) = Inr 48"
    by (simp add: hole_centers_script_params)
  moreover have "float_add (Finite 100) (hole_radius script_params) = Finite (205 / 2)"
    by (simp add: last_column_row_1 rnd_quarters)
  ultimately show ?thesis
    using length_grid_positions_script rejected_script last_column_row_1(1) by blast
qed

text \<open>
  The claim as the specification states it fails: the margins are not 0, the
  number of accepted positions is not 50, and the last column of row 1 is
  rejected.
\<close>

theorem script_example_counterexample:
  "grid_layout script_params = Inr script_grid
   \<and> margin_x script_grid \<noteq> Finite 0 \<and> margin_y script_grid \<noteq> Finite 0
   \<and> map_sum id length (hole_centers script_params script_grid) \<noteq> Inr 50
   \<and> \<not> accepted script_params script_grid (1, 9)
   \<and> \<not> x_upper_ok script_params (Finite 100)"
proof -
  have "margin_x script_grid \<noteq> Finite 0" "margin_y script_grid \<noteq> Finite 0"
    by (simp_all add: script_grid_def)
  moreover have "map_sum id length (hole_centers script_params script_grid) \<noteq> Inr 50"
    by (simp add: hole_centers_script_params)
  moreover have u: "\<not> x_upper_ok script_params (Finite 100)"
    by (simp add: x_upper_ok_def length_plus_tol last_column_row_1 rnd_quarters)
  moreover from u have "\<not> accepted script_params script_grid (1, 9)"
    by (simp add: accepted_def center_def value_of_def boundary_check_def last_column_row_1)
  ultimately show ?thesis
    using grid_layout_script_params by blast
qed

text \<open>
  Claim C7. The sequence of accepted centres is a function of the parameters and
  the layout alone: whenever the enumeration returns, it returns the list of grid
  positions \<open>(row, col)\<close> with \<open>0 \<le> row < n_rows\<close> and \<open>0 \<le> col < n_cols\<close>, taken in
  strictly increasing row-major order (by row, then by column within a row),
  restricted to the positions that pass the boundary check, each mapped to its
  centre \<open>(cx, cy)\<close>. Equal inputs therefore give the same finite ordered
  sequence.
\<close>

theorem enumeration_row_major:
  assumes "hole_centers P g = Inr cs"
  shows "cs = map (center P g) (filter (accepted P g) (grid_positions g))
   \<and> sorted_wrt row_major_less (filter (accepted P g) (grid_positions g))
   \<and> sorted_wrt row_major_less (grid_positions g)
   \<and> set (grid_positions g) = {0..n_rows g - 1} \<times> {0..n_cols g - 1}"
  using hole_centers_closed [OF assms] grid_positions_row_major set_grid_positions
    sorted_wrt_filter [OF grid_positions_row_major]
  by blast

theorem enumeration_row_major_witness:
  "hole_centers script_params script_grid =
     Inr (map (center script_params script_grid)
            (filter (accepted script_params script_grid) (grid_positions script_grid)))
   \<and> map_sum id length (hole_centers script_params script_grid) = Inr 48"
proof -
  from enumeration_row_major [OF hole_centers_script_params]
  have "hole_centers script_params script_grid =
     Inr (map (center script_params script_grid)
            (filter (accepted script_params script_grid) (grid_positions script_grid)))"
    by (simp only: hole_centers_script_params)
  moreover have "map_sum id length (hole_centers script_params script_grid) = Inr 48"
    by (simp add: hole_centers_script_params)
  ultimately show ?thesis by (rule conjI)
qed

text \<open>
  Claim C2, as the guard evaluates it. Every centre \<open>(x, y)\<close> the enumerator
  accepts satisfies \<open>x - hole_radius \<ge> - tol\<close>, \<open>x + hole_radius \<le> plate_length + tol\<close>,
  \<open>y - hole_radius \<ge> - tol\<close> and \<open>y + hole_radius \<le> plate_width + tol\<close>, where each
  sum and difference is the rounded double the guard of lines 94-95 compares.
\<close>

theorem accepted_within_bounds:
  assumes "hole_centers P g = Inr cs" and "(x, y) \<in> set cs"
  shows "float_ge (float_sub x (hole_radius P)) (float_neg (tol P))
       \<and> float_le (float_add x (hole_radius P)) (float_add (plate_length P) (tol P))
       \<and> float_ge (float_sub y (hole_radius P)) (float_neg (tol P))
       \<and> float_le (float_add y (hole_radius P)) (float_add (plate_width P) (tol P))"
proof -
  from assms(2) obtain rc where "accepted P g rc" and "(x, y) = center P g rc"
    by (auto simp: hole_centers_closed [OF assms(1)])
  then show ?thesis
    by (metis accepted_def boundary_check_def fst_conv snd_conv x_lower_ok_def x_upper_ok_def
        y_lower_ok_def y_upper_ok_def)
qed

theorem accepted_within_bounds_witness:
  "map_sum id (\<lambda>cs. (Finite 95, Finite 45) \<in> set cs) (hole_centers script_params script_grid)
     = Inr True
   \<and> float_ge (float_sub (Finite 95) (hole_radius script_params))
        (float_neg (tol script_params))
   \<and> float_le (float_add (Finite 95) (hole_radius script_params))
        (float_add (plate_length script_params) (tol script_params))
   \<and> float_ge (float_sub (Finite 45) (hole_radius script_params))
        (float_neg (tol script_params))
   \<and> float_le (float_add (Finite 45) (hole_radius script_params))
        (float_add (plate_width script_params) (tol script_params))"
  using accepted_within_bounds [OF hole_centers_script_params, of "Finite 95" "Finite 45"]
  by (simp add: hole_centers_script_params)

section \<open>A plate too short for one hole\<close>

lemma no_columns_no_centers:
  assumes "n_cols g \<le> 0" and "hole_centers P g = Inr cs"
  shows "cs = []"
  using hole_centers_closed [OF assms(2)] assms(1)
  by (simp add: grid_positions_def py_range_def)

text \<open>
  Claim C5. When \<open>plate_length < hole_diameter\<close>, line 35 sets \<open>n_cols = 0\<close>; and
  in every run that reaches line 106 the loops have visited no grid position and
  placed no hole, so the result is the base plate.
\<close>

theorem no_columns_no_holes:
  assumes "float_lt (plate_length P) (hole_diameter P)" and "script M P = Inr out"
  shows "compute_n_cols P = Inr 0 \<and> n_cols (layout out) = 0
       \<and> grid_positions (layout out) = [] \<and> centers out = [] \<and> hole_tools out = []
       \<and> result_shape out = base_plate P"
proof -
  have nc: "compute_n_cols P = Inr 0"
    using assms(1) by (simp add: compute_n_cols_def)
  from assms(2) obtain g cs where g: "grid_layout P = Inr g"
    and cs: "hole_centers P g = Inr cs"
    and out: "out = \<lparr>layout = g, centers = cs,
        hole_tools = map (\<lambda>c. make_hexagon_hole M (fst c) (snd c)
                                  (hole_radius P) (plate_thickness P)) cs,
        result_shape = boolean_cut (base_plate P)
          (map (\<lambda>c. make_hexagon_hole M (fst c) (snd c)
                                  (hole_radius P) (plate_thickness P)) cs)\<rparr>"
    by (auto simp: script_def Let_def split: sum.splits)
  have n0: "n_cols g = 0"
    using g nc by (auto simp: grid_layout_def split: sum.splits)
  then have "cs = []"
    using no_columns_no_centers [OF _ cs] by simp
  then show ?thesis
    using nc n0 by (simp add: out grid_positions_def py_range_def boolean_cut_def)
qed

lemma hole_centers_narrow: "hole_centers narrow_params narrow_grid = Inr []"
  by (simp add: hole_centers_def py_range_3 py_range_0 check_defs narrow_params_def
      narrow_grid_def script_eval)

lemma script_narrow:
  "script zero_libm narrow_params =
     Inr \<lparr>layout = narrow_grid, centers = [], hole_tools = [],
          result_shape = base_plate narrow_params\<rparr>"
  by (simp add: script_def grid_layout_narrow hole_centers_narrow boolean_cut_def)

theorem no_columns_no_holes_witness:
  "float_lt (plate_length narrow_params) (hole_diameter narrow_params)
   \<and> script zero_libm narrow_params =
     Inr \<lparr>layout = narrow_grid, centers = [], hole_tools = [],
          result_shape = base_plate narrow_params\<rparr>
   \<and> compute_n_cols narrow_params = Inr 0
   \<and> n_cols narrow_grid = 0"
proof -
  have lt: "float_lt (plate_length narrow_params) (hole_diameter narrow_params)"
    by (simp add: narrow_params_def)
  from no_columns_no_holes [OF lt script_narrow] lt script_narrow
  show ?thesis by simp
qed

section \<open>The boolean cut\<close>







end
